theory Spec2Isabelle
  imports Main "HOL-Library.Word" "HOL-Library.Multiset"
begin

section \<open>Data model\<close>

text \<open>
  The program (\<^verbatim>\<open>main.go\<close>) handles \<^verbatim>\<open>time.Time\<close> values that all live in one fixed
  location: events are converted with \<^verbatim>\<open>In(loc)\<close>, work windows are built with
  \<^verbatim>\<open>time.Date(..., loc)\<close>. A time is modelled as the number of nanoseconds shown by the
  wall clock of that location, counted from the reading 0001-01-01 00:00:00, which is where
  the zero value \<^verbatim>\<open>time.Time{}\<close> reads. \<^verbatim>\<open>After\<close> and \<^verbatim>\<open>Before\<close> compare instants,
  so they are \<open>>\<close> and \<open><\<close> on these numbers.
\<close>

type_synonym time = int

text \<open>\<^verbatim>\<open>time.Duration\<close> is a signed 64-bit count of nanoseconds.\<close>

type_synonym Duration = "64 word"

text \<open>\<^verbatim>\<open>type interval struct { start time.Time; end time.Time }\<close>\<close>

record interval =
  start :: time
  end' :: time

text \<open>The zero value \<^verbatim>\<open>interval{}\<close>.\<close>

definition zeroInterval :: interval where
  "zeroInterval = \<lparr>start = 0, end' = 0\<rparr>"

section \<open>Interval overlap\<close>

definition overlaps :: "interval \<Rightarrow> interval \<Rightarrow> interval \<times> bool" where
  "overlaps a b =
     (let s = start a;
          s = (if start b > s then start b else s);
          e = end' a;
          e = (if end' b < e then end' b else e)
      in if e > s then (\<lparr>start = s, end' = e\<rparr>, True)
         else (zeroInterval, False))"

section \<open>Interval merger\<close>

text \<open>
  \<^verbatim>\<open>sort.Slice(in, func(i, j int) bool { return in[i].start.Before(in[j].start) })\<close>
  orders the slice by \<open>start\<close>. For slices of at most twelve elements the library runs an
  insertion sort, which keeps intervals of equal \<open>start\<close> in their input order; the model
  is that sort, \<open>sort_key start\<close>, at every length.

  The loop keeps the result in \<open>out\<close> and works on its last element through a pointer:
  it either appends \<open>cur\<close>, or overwrites the \<open>end\<close> of the last element, or leaves
  \<open>out\<close> as it is. \<open>out\<close> starts with one element and never shrinks.
\<close>

fun mergeLoop :: "interval list \<Rightarrow> interval list \<Rightarrow> interval list" where
  "mergeLoop out [] = out"
| "mergeLoop out (cur # rest) =
     (if start cur > end' (last out) then mergeLoop (out @ [cur]) rest
      else if end' cur > end' (last out)
        then mergeLoop (butlast out @ [(last out)\<lparr>end' := end' cur\<rparr>]) rest
      else mergeLoop out rest)"

definition mergeIntervals :: "interval list \<Rightarrow> interval list" where
  "mergeIntervals ins =
     (if length ins = 0 then []
      else let sorted_in = sort_key start ins
           in mergeLoop [hd sorted_in] (tl sorted_in))"

section \<open>Free-slot derivation\<close>

text \<open>
  \<^verbatim>\<open>t.Sub(u)\<close> is the difference \<open>t - u\<close> as a \<^verbatim>\<open>Duration\<close>; when the difference
  does not fit 64 bits the library returns the largest or the smallest duration.
\<close>

definition maxDuration :: int where
  "maxDuration = 2 ^ 63 - 1"

definition minDuration :: int where
  "minDuration = - (2 ^ 63)"

definition Sub :: "time \<Rightarrow> time \<Rightarrow> Duration" where
  "Sub t u =
     (let d = t - u
      in if d > maxDuration then word_of_int maxDuration
         else if d < minDuration then word_of_int minDuration
         else word_of_int d)"

text \<open>\<^verbatim>\<open>Hour()\<close> and \<^verbatim>\<open>Minute()\<close> read the wall clock of the location.\<close>

definition nsPerMinute :: int where
  "nsPerMinute = 60 * 1000000000"

definition nsPerHour :: int where
  "nsPerHour = 60 * nsPerMinute"

definition nsPerDay :: int where
  "nsPerDay = 24 * nsPerHour"

definition Hour :: "time \<Rightarrow> nat" where
  "Hour t = nat ((t div nsPerHour) mod 24)"

definition Minute :: "time \<Rightarrow> nat" where
  "Minute t = nat ((t div nsPerMinute) mod 60)"

text \<open>
  \<^verbatim>\<open>fmt.Sprintf("%02d", n)\<close> for \<open>n \<ge> 0\<close>: the decimal digits of \<open>n\<close>, padded on the
  left with zeros to two characters.
\<close>

fun digits :: "nat \<Rightarrow> string" where
  "digits n =
     (if n < 10 then [''0123456789'' ! n]
      else digits (n div 10) @ [''0123456789'' ! (n mod 10)])"

declare digits.simps [simp del]

definition fmt02d :: "nat \<Rightarrow> string" where
  "fmt02d n = (let ds = digits n in replicate (2 - length ds) CHR ''0'' @ ds)"

text \<open>\<^verbatim>\<open>fmt.Sprintf("%02d:%02d~%02d:%02d", f.start.Hour(), f.start.Minute(), f.end.Hour(), f.end.Minute())\<close>\<close>

definition formatSlot :: "interval \<Rightarrow> string" where
  "formatSlot f =
     fmt02d (Hour (start f)) @ '':'' @ fmt02d (Minute (start f)) @ ''~'' @
     fmt02d (Hour (end' f)) @ '':'' @ fmt02d (Minute (end' f))"

text \<open>
  First loop of \<^verbatim>\<open>findFreeSlots\<close>: every busy interval is clipped to the day window
  with \<open>overlaps\<close>; those that do not meet the window are dropped.
\<close>

fun clipBusy :: "interval \<Rightarrow> interval list \<Rightarrow> interval list \<Rightarrow> interval list" where
  "clipBusy dayWin busy [] = busy"
| "clipBusy dayWin busy (ev # evs) =
     (case overlaps ev dayWin of
        (inter', ok) \<Rightarrow>
          if ok then clipBusy dayWin (busy @ [inter']) evs
          else clipBusy dayWin busy evs)"

text \<open>
  Second loop: the sweep over the merged busy intervals. The state is the list \<open>free\<close>
  and the \<open>cursor\<close>.
\<close>

fun sweep :: "interval list \<Rightarrow> time \<Rightarrow> interval list \<Rightarrow> interval list \<times> time" where
  "sweep free cursor [] = (free, cursor)"
| "sweep free cursor (b # bs) =
     (let free = (if start b > cursor then free @ [\<lparr>start = cursor, end' = start b\<rparr>]
                  else free);
          cursor = (if end' b > cursor then end' b else cursor)
      in sweep free cursor bs)"

text \<open>The value of \<open>free\<close> when the filter loop starts.\<close>

definition freeIntervals :: "time \<Rightarrow> time \<Rightarrow> interval list \<Rightarrow> interval list" where
  "freeIntervals dayStart dayEnd busyAll =
     (let dayWin = \<lparr>start = dayStart, end' = dayEnd\<rparr>;
          busy = clipBusy dayWin [] busyAll;
          busy = mergeIntervals busy;
          (free, cursor) = sweep [] dayStart busy
      in if cursor < dayEnd then free @ [\<lparr>start = cursor, end' = dayEnd\<rparr>] else free)"

text \<open>Third loop: the filter by minimum duration, with the formatting.\<close>

fun filterFormat :: "Duration \<Rightarrow> string list \<Rightarrow> interval list \<Rightarrow> string list" where
  "filterFormat minDur out [] = out"
| "filterFormat minDur out (f # fs) =
     (if sint (Sub (end' f) (start f)) \<ge> sint minDur
      then filterFormat minDur (out @ [formatSlot f]) fs
      else filterFormat minDur out fs)"

definition findFreeSlots :: "time \<Rightarrow> time \<Rightarrow> interval list \<Rightarrow> Duration \<Rightarrow> string list" where
  "findFreeSlots dayStart dayEnd busyAll minDur =
     filterFormat minDur [] (freeIntervals dayStart dayEnd busyAll)"

text \<open>
  The instant at which the wall clock shows \<open>h:m\<close> on day number \<open>day\<close>, as
  \<^verbatim>\<open>time.Date(y, mo, d, h, m, 0, 0, loc)\<close> builds the work window in \<^verbatim>\<open>main\<close>.
\<close>

definition atClock :: "int \<Rightarrow> nat \<Rightarrow> nat \<Rightarrow> time" where
  "atClock day h m = day * nsPerDay + int h * nsPerHour + int m * nsPerMinute"

definition minutes :: "int \<Rightarrow> Duration" where
  "minutes n = word_of_int n * word_of_int nsPerMinute"

section \<open>Properties of the overlap\<close>

text \<open>
  C4. For every pair of intervals \<open>a\<close>, \<open>b\<close>, \<open>overlaps a b\<close> takes \<open>s\<close> as the later of the
  two starts and \<open>e\<close> as the earlier of the two ends; it returns the interval from \<open>s\<close> to
  \<open>e\<close> with \<open>True\<close> exactly when \<open>e\<close> is strictly after \<open>s\<close>, and the zero interval with
  \<open>False\<close> otherwise. The function is a value-to-value map: it reads and writes no state.
\<close>

theorem overlaps_max_min:
  "overlaps a b =
     (if max (start a) (start b) < min (end' a) (end' b)
      then (\<lparr>start = max (start a) (start b), end' = min (end' a) (end' b)\<rparr>, True)
      else (zeroInterval, False))"
  by (simp add: overlaps_def Let_def max_def min_def)

theorem overlaps_max_min_witness:
  "overlaps \<lparr>start = 0, end' = 10\<rparr> \<lparr>start = 5, end' = 20\<rparr> = (\<lparr>start = 5, end' = 10\<rparr>, True)
   \<and> overlaps \<lparr>start = 0, end' = 10\<rparr> \<lparr>start = 10, end' = 20\<rparr> = (zeroInterval, False)"
  using overlaps_max_min [of "\<lparr>start = 0, end' = 10\<rparr>" "\<lparr>start = 5, end' = 20\<rparr>"]
        overlaps_max_min [of "\<lparr>start = 0, end' = 10\<rparr>" "\<lparr>start = 10, end' = 20\<rparr>"]
  by simp

text \<open>
  C7. The overlap is symmetric: \<open>overlaps a b\<close> and \<open>overlaps b a\<close> return the same
  interval and the same flag.
\<close>

theorem overlaps_symmetric: "overlaps a b = overlaps b a"
  by (auto simp add: overlaps_def Let_def)

end
